theory Spec2Isabelle
  imports Complex_Main "HOL-Library.Char_ord" "HOL-Library.List_Lexorder"
    "HOL-Library.Product_Lexorder"
begin

section \<open>The financial calculation service (python-service/app.py)\<close>

text \<open>
  The service receives lists of transaction records and an optional date context and
  returns summaries. A pandas data frame is modelled as the list of its rows, in row
  order; a column is a field of the row. A string is a list of characters, each a code
  point below 256. A record carries the keys \<open>date\<close> and \<open>amount\<close>, whose values may be
  null, and may carry the key \<open>account\<close>.

  What the libraries compute and the source does not fix is a parameter of the model: the
  format-free date parser (\<open>generic\<close>), and in the record \<open>pandas\<close> the arithmetic of a
  column that is not of 64-bit integers, the order in which the sort leaves equal sums,
  and the time zone that the format-free parser reads. A column of 64-bit integers is
  modelled as it is, with its wrap-around.

  The two handlers return \<open>Inl e\<close> where the source's \<open>except\<close> branch answers with
  the error object, and otherwise the object that \<open>jsonify\<close> writes.
\<close>

subsection \<open>Characters and numerals\<close>

definition digit_val :: "char \<Rightarrow> nat option" where
  "digit_val c = map_of (zip ''0123456789'' [0, 1, 2, 3, 4, 5, 6, 7, 8, 9]) c"

definition is_digit :: "char \<Rightarrow> bool" where
  "is_digit c = (digit_val c \<noteq> None)"

definition digit_char :: "nat \<Rightarrow> char" where
  "digit_char n = ''0123456789'' ! (n mod 10)"

text \<open>The value of a string of decimal digits (characters that are no digit are skipped;
  the callers pass digits only).\<close>

definition nat_of_digits :: "string \<Rightarrow> nat" where
  "nat_of_digits ds =
     foldl (\<lambda>acc c. case digit_val c of Some d \<Rightarrow> 10 * acc + d | None \<Rightarrow> acc) 0 ds"

text \<open>\<open>str.lower()\<close>: the capital letters of ASCII and those from \<open>0xC0\<close> to \<open>0xDE\<close>
  (but the sign \<open>0xD7\<close>) have a small letter.\<close>

definition upper_letters :: string where
  "upper_letters = ''ABCDEFGHIJKLMNOPQRSTUVWXYZ'' @
     [CHR 0xC0, CHR 0xC1, CHR 0xC2, CHR 0xC3, CHR 0xC4, CHR 0xC5, CHR 0xC6, CHR 0xC7,
      CHR 0xC8, CHR 0xC9, CHR 0xCA, CHR 0xCB, CHR 0xCC, CHR 0xCD, CHR 0xCE, CHR 0xCF,
      CHR 0xD0, CHR 0xD1, CHR 0xD2, CHR 0xD3, CHR 0xD4, CHR 0xD5, CHR 0xD6,
      CHR 0xD8, CHR 0xD9, CHR 0xDA, CHR 0xDB, CHR 0xDC, CHR 0xDD, CHR 0xDE]"

definition lower_letters :: string where
  "lower_letters = ''abcdefghijklmnopqrstuvwxyz'' @
     [CHR 0xE0, CHR 0xE1, CHR 0xE2, CHR 0xE3, CHR 0xE4, CHR 0xE5, CHR 0xE6, CHR 0xE7,
      CHR 0xE8, CHR 0xE9, CHR 0xEA, CHR 0xEB, CHR 0xEC, CHR 0xED, CHR 0xEE, CHR 0xEF,
      CHR 0xF0, CHR 0xF1, CHR 0xF2, CHR 0xF3, CHR 0xF4, CHR 0xF5, CHR 0xF6,
      CHR 0xF8, CHR 0xF9, CHR 0xFA, CHR 0xFB, CHR 0xFC, CHR 0xFD, CHR 0xFE]"

definition lower_char :: "char \<Rightarrow> char" where
  "lower_char c =
     (case map_of (zip upper_letters lower_letters) c of
        Some l \<Rightarrow> l
      | None \<Rightarrow> c)"

definition lower :: "string \<Rightarrow> string" where
  "lower s = map lower_char s"

text \<open>The blanks of C's \<open>isspace\<close>. Python's \<open>int\<close> reads a string with a character
  beyond ASCII after it has replaced the blanks beyond ASCII by spaces: below 256 these
  are \<open>0x85\<close> and \<open>0xA0\<close>.\<close>

definition is_space :: "char \<Rightarrow> bool" where
  "is_space c = (c \<in> set [CHR '' '', CHR 0x09, CHR 0x0A, CHR 0x0B, CHR 0x0C, CHR 0x0D])"

definition py_is_space :: "char \<Rightarrow> bool" where
  "py_is_space c = (is_space c \<or> c \<in> set [CHR 0x85, CHR 0xA0])"

definition strip :: "(char \<Rightarrow> bool) \<Rightarrow> string \<Rightarrow> string" where
  "strip blank s = rev (dropWhile blank (rev (dropWhile blank s)))"

text \<open>The fields of a string between the occurrences of a separator.\<close>

fun split_on :: "char \<Rightarrow> string \<Rightarrow> string list" where
  "split_on c [] = [[]]"
| "split_on c (x # xs) =
     (if x = c then [] # split_on c xs
      else (case split_on c xs of
              [] \<Rightarrow> [[x]]
            | p # ps \<Rightarrow> (x # p) # ps))"

subsection \<open>Calendar dates\<close>

text \<open>A parsed date: the calendar day of a pandas \<open>Timestamp\<close>. The unparseable
  results \<open>None\<close> and \<open>NaT\<close> are both \<open>None\<close>: \<open>dropna\<close> treats them alike, and
  \<open>parse_date\<close> returns Python's \<open>None\<close> exactly for the null and the empty string.\<close>

record timestamp =
  ts_year :: nat
  ts_month :: nat
  ts_day :: nat

definition is_leap :: "nat \<Rightarrow> bool" where
  "is_leap y = (y mod 4 = 0 \<and> (y mod 100 \<noteq> 0 \<or> y mod 400 = 0))"

definition days_in_month :: "nat \<Rightarrow> nat \<Rightarrow> nat" where
  "days_in_month y m =
     (if m = 2 then (if is_leap y then 29 else 28)
      else if m \<in> set [4, 6, 9, 11] then 30
      else 31)"

definition valid_date :: "timestamp \<Rightarrow> bool" where
  "valid_date t =
     (1 \<le> ts_month t \<and> ts_month t \<le> 12 \<and> 1 \<le> ts_day t
      \<and> ts_day t \<le> days_in_month (ts_year t) (ts_month t))"

definition month_abbr :: "string list" where
  "month_abbr = [''Jan'', ''Feb'', ''Mar'', ''Apr'', ''May'', ''Jun'',
                 ''Jul'', ''Aug'', ''Sep'', ''Oct'', ''Nov'', ''Dec'']"

definition pad2 :: "nat \<Rightarrow> string" where
  "pad2 n = [digit_char (n div 10), digit_char n]"

text \<open>\<open>strftime('%d-%b-%y')\<close>: the day on two digits, the abbreviated month name,
  the year without its century on two digits.\<close>

definition strftime_dby :: "timestamp \<Rightarrow> string" where
  "strftime_dby t =
     pad2 (ts_day t) @ ''-'' @ month_abbr ! (ts_month t - 1) @ ''-'' @ pad2 (ts_year t mod 100)"

subsection \<open>The date parser\<close>

text \<open>
  \<open>pd.to_datetime(s, format='%d-%b-%y', errors='coerce')\<close>. The whole string has to
  match the format. The directives are those of \<open>strptime\<close>:
  \<^item> \<open>%d\<close> is \<open>3[0-1]|[1-2]\d|0[1-9]|[1-9]| [1-9]\<close>;
  \<^item> \<open>%b\<close> is an abbreviated month name, in any case;
  \<^item> \<open>%y\<close> is two digits, where 00 to 68 are the years 2000 to 2068 and 69 to 99 the
    years 1969 to 1999.
  None of the three fields can hold a hyphen, so the string matches exactly when it
  splits at its hyphens in three such fields. A day the month does not have gives
  \<open>NaT\<close>, as any mismatch does.
\<close>

definition day_field :: "string \<Rightarrow> nat option" where
  "day_field f =
     (case f of
        [a] \<Rightarrow>
          (case digit_val a of
             Some n \<Rightarrow> if 1 \<le> n then Some n else None
           | None \<Rightarrow> None)
      | [a, b] \<Rightarrow>
          (if a = CHR '' '' then
             (case digit_val b of
                Some n \<Rightarrow> if 1 \<le> n then Some n else None
              | None \<Rightarrow> None)
           else
             (case digit_val a of
                Some m \<Rightarrow>
                  (case digit_val b of
                     Some n \<Rightarrow> if 1 \<le> 10 * m + n \<and> 10 * m + n \<le> 31 then Some (10 * m + n) else None
                   | None \<Rightarrow> None)
              | None \<Rightarrow> None))
      | _ \<Rightarrow> None)"

definition month_field :: "string \<Rightarrow> nat option" where
  "month_field f = map_of (zip (map lower month_abbr) [1, 2, 3, 4, 5, 6, 7, 8, 9, 10, 11, 12]) (lower f)"

definition century_of :: "nat \<Rightarrow> nat" where
  "century_of yy = (if yy \<le> 68 then 2000 + yy else 1900 + yy)"

definition year_field :: "string \<Rightarrow> nat option" where
  "year_field f =
     (case f of
        [a, b] \<Rightarrow>
          (case digit_val a of
             Some m \<Rightarrow>
               (case digit_val b of
                  Some n \<Rightarrow> Some (century_of (10 * m + n))
                | None \<Rightarrow> None)
           | None \<Rightarrow> None)
      | _ \<Rightarrow> None)"

definition to_datetime_dby :: "string \<Rightarrow> timestamp option" where
  "to_datetime_dby s =
     (case split_on CHR ''-'' s of
        [d, b, y] \<Rightarrow>
          (case day_field d of
             None \<Rightarrow> None
           | Some dd \<Rightarrow>
               (case month_field b of
                  None \<Rightarrow> None
                | Some mm \<Rightarrow>
                    (case year_field y of
                       None \<Rightarrow> None
                     | Some yy \<Rightarrow>
                         if dd \<le> days_in_month yy mm
                         then Some \<lparr>ts_year = yy, ts_month = mm, ts_day = dd\<rparr>
                         else None)))
      | _ \<Rightarrow> None)"

text \<open>
  \<open>parse_date\<close>. A date value is a string or the JSON null (\<open>None\<close>). The format-free
  \<open>pd.to_datetime(s, errors='coerce')\<close> of the last branch is the parameter \<open>generic\<close>;
  it gives the calendar day of the timestamp it reads, in the time zone it reads.
\<close>

definition parse_date :: "(string \<Rightarrow> timestamp option) \<Rightarrow> string option \<Rightarrow> timestamp option" where
  "parse_date generic date_str =
     (case date_str of
        None \<Rightarrow> None
      | Some s \<Rightarrow>
          if s = [] then None
          else if CHR ''-'' \<in> set s then to_datetime_dby s
          else generic s)"

subsection \<open>Numbers\<close>

text \<open>A Python \<open>float\<close>: a double, given by the rational it stands for when it is
  finite.\<close>

datatype float64 = Finite rat | PosInf | NegInf | NaN

text \<open>The 64-bit integers of numpy: a sum or a difference that leaves the range wraps
  around.\<close>

definition in_int64 :: "int \<Rightarrow> bool" where
  "in_int64 n = (- (2 ^ 63) \<le> n \<and> n < 2 ^ 63)"

definition wrap64 :: "int \<Rightarrow> int" where
  "wrap64 n = (n + 2 ^ 63) mod 2 ^ 64 - 2 ^ 63"

text \<open>\<open>float(n)\<close> for a 64-bit integer: the nearest double, which keeps 53 binary digits; of
  two doubles equally near, the one whose last digit is even.\<close>

function bit_length :: "int \<Rightarrow> nat" where
  "bit_length n = (if n \<le> 0 then 0 else Suc (bit_length (n div 2)))"
  by pat_completeness auto
termination
  by (relation "measure nat") auto

declare bit_length.simps [simp del]

definition round_half_even :: "int \<Rightarrow> nat \<Rightarrow> int" where
  "round_half_even m k =
     (let q = m div 2 ^ k; r = m mod 2 ^ k; h = 2 ^ (k - 1)
      in if h < r \<or> (r = h \<and> odd q) then q + 1 else q)"

definition float_of_int :: "int \<Rightarrow> rat" where
  "float_of_int n =
     (let k = bit_length \<bar>n\<bar> - 53
      in if k = 0 then of_int n
         else of_int (sgn n * (round_half_even \<bar>n\<bar> k * 2 ^ k)))"

subsection \<open>Numeric coercion of the amounts\<close>

text \<open>An amount arrives as a JSON integer, as another JSON number, as a string or as
  null.\<close>

datatype amount_value = JInt int | JFloat float64 | Text string | Null

definition signed :: "string \<Rightarrow> bool \<times> string" where
  "signed s =
     (case s of
        [] \<Rightarrow> (False, s)
      | c # r \<Rightarrow>
          if c = CHR ''-'' then (True, r) else if c = CHR ''+'' then (False, r) else (False, s))"

text \<open>The strings that \<open>pd.to_numeric\<close> reads as integers: blanks around it, a sign and
  decimal digits, with no point and no exponent.\<close>

definition int_literal :: "string \<Rightarrow> int option" where
  "int_literal s0 =
     (case signed (strip is_space s0) of
        (neg, ds) \<Rightarrow>
          if ds \<noteq> [] \<and> list_all is_digit ds
          then Some (if neg then - int (nat_of_digits ds) else int (nat_of_digits ds))
          else None)"

text \<open>The 64-bit integer of a cell, if it is one.\<close>

definition int64_cell :: "amount_value \<Rightarrow> int option" where
  "int64_cell v =
     (case v of
        JInt n \<Rightarrow> if in_int64 n then Some n else None
      | JFloat x \<Rightarrow> None
      | Text s \<Rightarrow>
          (case int_literal s of
             None \<Rightarrow> None
           | Some n \<Rightarrow> if in_int64 n then Some n else None)
      | Null \<Rightarrow> None)"

text \<open>
  After \<open>pd.to_numeric(..., errors='coerce').fillna(0)\<close> the column is of 64-bit integers
  when every cell is one. Otherwise the column has another element type (doubles, when a
  cell is a fraction, a null or a text that is no number), and its cells are cells of
  that type.
\<close>

definition int_column :: "amount_value list \<Rightarrow> bool" where
  "int_column col = list_all (\<lambda>v. int64_cell v \<noteq> None) col"

datatype 'f amt = I64 int | Oth 'f

definition int64_of :: "'f amt \<Rightarrow> int option" where
  "int64_of a = (case a of I64 n \<Rightarrow> Some n | Oth x \<Rightarrow> None)"

text \<open>
  The parameters of the model that stand for pandas and numpy:
  \<^item> \<open>np_coerce col v\<close>: the cell that the coerced column \<open>col\<close> holds for \<open>v\<close>, when the
    column is not of 64-bit integers;
  \<^item> \<open>np_of_int\<close>: a 64-bit integer in such a column;
  \<^item> \<open>np_sum\<close>, \<open>np_sub\<close>: the sum of such a column and the difference of two such
    numbers;
  \<^item> \<open>np_float\<close>: \<open>float(x)\<close> for such a number;
  \<^item> \<open>np_order\<close>: the place of such a number in the descending order of \<open>sort_values\<close>;
  \<^item> \<open>np_rank\<close>: the order in which the sort leaves the accounts of equal sums (the
    default sorting algorithm is not stable);
  \<^item> \<open>np_zone\<close>: the time zone of the timestamp that the format-free parser reads from a
    string, \<open>None\<close> when it has none.
\<close>

record ('f, 'z) pandas =
  np_coerce :: "amount_value list \<Rightarrow> amount_value \<Rightarrow> 'f"
  np_of_int :: "int \<Rightarrow> 'f"
  np_sum :: "'f list \<Rightarrow> 'f"
  np_sub :: "'f \<Rightarrow> 'f \<Rightarrow> 'f"
  np_float :: "'f \<Rightarrow> float64"
  np_order :: "'f \<Rightarrow> rat"
  np_rank :: "string \<Rightarrow> nat"
  np_zone :: "string \<Rightarrow> 'z option"

definition as_other :: "('f, 'z) pandas \<Rightarrow> 'f amt \<Rightarrow> 'f" where
  "as_other np a = (case a of I64 n \<Rightarrow> np_of_int np n | Oth x \<Rightarrow> x)"

text \<open>The sum of a column: of 64-bit integers when all its cells are.\<close>

definition col_sum :: "('f, 'z) pandas \<Rightarrow> 'f amt list \<Rightarrow> 'f amt" where
  "col_sum np col =
     (if list_all (\<lambda>a. int64_of a \<noteq> None) col
      then I64 (wrap64 (sum_list (List.map_filter int64_of col)))
      else Oth (np_sum np (map (as_other np) col)))"


text \<open>\<open>float(x)\<close>.\<close>

definition out_float :: "('f, 'z) pandas \<Rightarrow> 'f amt \<Rightarrow> float64" where
  "out_float np a = (case a of I64 n \<Rightarrow> Finite (float_of_int n) | Oth x \<Rightarrow> np_float np x)"

subsection \<open>Records, rows and the date context\<close>

text \<open>A transaction record of the request. The date is a string or null; the account is
  a string, or \<open>None\<close> when it is null or the record has no such key.\<close>

record TransactionRecord =
  json_date :: "string option"
  json_amount :: amount_value
  json_account :: "string option"

text \<open>A row of the data frame once the amount column is numeric. The column
  \<open>parsed_date\<close> is \<open>None\<close> until it is assigned, and where the date does not parse.\<close>

record 'f row =
  date :: "string option"
  amount :: "'f amt"
  account :: "string option"
  parsed_date :: "timestamp option"

text \<open>\<open>pd.DataFrame(data)\<close> followed by
  \<open>df['amount'] = pd.to_numeric(df['amount'], errors='coerce').fillna(0)\<close>.\<close>

definition numeric_cell :: "('f, 'z) pandas \<Rightarrow> amount_value list \<Rightarrow> amount_value \<Rightarrow> 'f amt" where
  "numeric_cell np col v =
     (if int_column col then
        (case int64_cell v of
           Some n \<Rightarrow> I64 n
         | None \<Rightarrow> Oth (np_coerce np col v))
      else Oth (np_coerce np col v))"

definition numeric_frame :: "('f, 'z) pandas \<Rightarrow> TransactionRecord list \<Rightarrow> 'f row list" where
  "numeric_frame np data =
     map (\<lambda>t. \<lparr>date = json_date t,
               amount = numeric_cell np (map json_amount data) (json_amount t),
               account = json_account t, parsed_date = None\<rparr>) data"

text \<open>An entry of the lists \<open>months\<close> and \<open>years\<close>: a string or an integer.\<close>

datatype str_or_int = S string | I int

text \<open>The date context; a key that is absent reads as \<open>False\<close> or as the empty list, and
  the whole context may be absent (\<open>None\<close>, which stands for \<open>{}\<close> as well).\<close>

record DateContext =
  isDateSpecific :: bool
  months :: "str_or_int list"
  years :: "str_or_int list"

datatype error = ValueError | AttributeError

subsection \<open>The date-context filter\<close>

definition month_map :: "(string \<times> int) list" where
  "month_map = [(''jan'', 1), (''feb'', 2), (''mar'', 3), (''apr'', 4), (''may'', 5), (''jun'', 6),
                (''jul'', 7), (''aug'', 8), (''sep'', 9), (''oct'', 10), (''nov'', 11), (''dec'', 12)]"

fun month_numbers :: "str_or_int list \<Rightarrow> int list" where
  "month_numbers [] = []"
| "month_numbers (S m # ms) =
     (case map_of month_map (take 3 (lower m)) of
        Some n \<Rightarrow> n # month_numbers ms
      | None \<Rightarrow> month_numbers ms)"
| "month_numbers (I m # ms) = m # month_numbers ms"

text \<open>Python's \<open>int(s)\<close> on a string: blanks around it, a sign, and decimal digits that
  single underscores may separate; \<open>None\<close> is the \<open>ValueError\<close>.\<close>

definition py_int :: "string \<Rightarrow> int option" where
  "py_int s0 =
     (case signed (strip is_space (map (\<lambda>c. if py_is_space c then CHR '' '' else c) s0)) of
        (neg, body) \<Rightarrow>
          if list_all (\<lambda>g. g \<noteq> [] \<and> list_all is_digit g) (split_on CHR ''_'' body)
          then (let n = int (nat_of_digits (filter is_digit body)) in Some (if neg then - n else n))
          else None)"

fun year_numbers :: "str_or_int list \<Rightarrow> error + int list" where
  "year_numbers [] = Inr []"
| "year_numbers (S y # ys) =
     (case py_int y of
        None \<Rightarrow> Inl ValueError
      | Some n \<Rightarrow>
          (case year_numbers ys of
             Inl e \<Rightarrow> Inl e
           | Inr ns \<Rightarrow> Inr ((if length y = 2 then 2000 + n else n) # ns)))"
| "year_numbers (I y # ys) =
     (case year_numbers ys of
        Inl e \<Rightarrow> Inl e
      | Inr ns \<Rightarrow> Inr (y # ns))"

text \<open>\<open>df['parsed_date'] = df['date'].apply(parse_date)\<close> and
  \<open>df.dropna(subset=['parsed_date'])\<close>.\<close>

definition apply_parse_date :: "(string \<Rightarrow> timestamp option) \<Rightarrow> 'f row list \<Rightarrow> 'f row list" where
  "apply_parse_date generic df = map (\<lambda>r. r\<lparr>parsed_date := parse_date generic (date r)\<rparr>) df"

definition dropna :: "'f row list \<Rightarrow> 'f row list" where
  "dropna df = filter (\<lambda>r. parsed_date r \<noteq> None) df"

text \<open>
  The element type of the column \<open>parsed_date\<close>. pandas keeps the parsed values as
  timestamps when one of them is a timestamp or \<open>NaT\<close> and the timestamps share one time
  zone (or have none). It keeps them as objects when all of them are Python's \<open>None\<close>,
  and when the timestamps differ in their time zone; reading \<open>.dt\<close> of such a column
  raises \<open>AttributeError\<close>. The format \<open>%d-%b-%y\<close> reads no time zone.
\<close>

definition python_none :: "string option \<Rightarrow> bool" where
  "python_none d = (case d of None \<Rightarrow> True | Some s \<Rightarrow> s = [])"

definition date_zone :: "('f, 'z) pandas \<Rightarrow> string option \<Rightarrow> 'z option" where
  "date_zone np d =
     (case d of
        None \<Rightarrow> None
      | Some s \<Rightarrow> if s = [] then None else if CHR ''-'' \<in> set s then None else np_zone np s)"

definition zones ::
  "('f, 'z) pandas \<Rightarrow> (string \<Rightarrow> timestamp option) \<Rightarrow> string option list \<Rightarrow> 'z option list" where
  "zones np generic ds = remdups (map (date_zone np) (filter (\<lambda>d. parse_date generic d \<noteq> None) ds))"

definition object_dates ::
  "('f, 'z) pandas \<Rightarrow> (string \<Rightarrow> timestamp option) \<Rightarrow> string option list \<Rightarrow> bool" where
  "object_dates np generic ds = (list_all python_none ds \<or> 1 < length (zones np generic ds))"

definition month_isin :: "int list \<Rightarrow> 'f row \<Rightarrow> bool" where
  "month_isin ns r = (case parsed_date r of None \<Rightarrow> False | Some t \<Rightarrow> int (ts_month t) \<in> set ns)"

definition year_isin :: "int list \<Rightarrow> 'f row \<Rightarrow> bool" where
  "year_isin ns r = (case parsed_date r of None \<Rightarrow> False | Some t \<Rightarrow> int (ts_year t) \<in> set ns)"

text \<open>The two steps of the filter; \<open>obj\<close> says that the column \<open>parsed_date\<close> holds
  objects.\<close>

definition filter_months :: "bool \<Rightarrow> str_or_int list \<Rightarrow> 'f row list \<Rightarrow> error + 'f row list" where
  "filter_months obj ms df =
     (if ms \<noteq> [] then
        (let month_nums = month_numbers ms
         in if month_nums \<noteq> [] then
              (if obj then Inl AttributeError else Inr (filter (month_isin month_nums) df))
            else Inr df)
      else Inr df)"

definition filter_years :: "bool \<Rightarrow> str_or_int list \<Rightarrow> 'f row list \<Rightarrow> error + 'f row list" where
  "filter_years obj ys df =
     (if ys \<noteq> [] then
        (case year_numbers ys of
           Inl e \<Rightarrow> Inl e
         | Inr year_nums \<Rightarrow>
             if year_nums \<noteq> [] then
               (if obj then Inl AttributeError else Inr (filter (year_isin year_nums) df))
             else Inr df)
      else Inr df)"

definition date_specific :: "DateContext option \<Rightarrow> bool" where
  "date_specific date_context =
     (case date_context of None \<Rightarrow> False | Some c \<Rightarrow> isDateSpecific c)"

definition filter_by_date_context ::
  "('f, 'z) pandas \<Rightarrow> (string \<Rightarrow> timestamp option) \<Rightarrow> 'f row list \<Rightarrow> DateContext option
     \<Rightarrow> error + 'f row list" where
  "filter_by_date_context np generic df date_context =
     (case date_context of
        None \<Rightarrow> Inr df
      | Some c \<Rightarrow>
          if \<not> isDateSpecific c then Inr df
          else
            (case filter_months (object_dates np generic (map date df)) (months c)
                    (dropna (apply_parse_date generic df)) of
               Inl e \<Rightarrow> Inl e
             | Inr df1 \<Rightarrow> filter_years (object_dates np generic (map date df)) (years c) df1))"

subsection \<open>Grouping\<close>

text \<open>The calendar period of a row, \<open>dt.to_period('M')\<close>: the year and the month.
  \<open>str(period)\<close> is \<open>YYYY-MM\<close>; the years of a \<open>Timestamp\<close> have four digits.\<close>

definition to_period :: "'f row \<Rightarrow> (nat \<times> nat) option" where
  "to_period r = (case parsed_date r of None \<Rightarrow> None | Some t \<Rightarrow> Some (ts_year t, ts_month t))"

definition period_str :: "nat \<times> nat \<Rightarrow> string" where
  "period_str p = pad2 (fst p div 100) @ pad2 (fst p) @ ''-'' @ pad2 (snd p)"

text \<open>\<open>groupby\<close> lists its groups by ascending key and leaves out the rows whose key
  is missing.\<close>

definition group_keys :: "('f row \<Rightarrow> 'k option) \<Rightarrow> 'f row list \<Rightarrow> ('k::linorder) list" where
  "group_keys key df = sort (remdups (List.map_filter key df))"

definition group_rows :: "('f row \<Rightarrow> 'k option) \<Rightarrow> 'k \<Rightarrow> 'f row list \<Rightarrow> 'f row list" where
  "group_rows key k df = filter (\<lambda>r. key r = Some k) df"

definition amount_sum :: "('f, 'z) pandas \<Rightarrow> 'f row list \<Rightarrow> 'f amt" where
  "amount_sum np df = col_sum np (map amount df)"

text \<open>The monthly breakdown of the sales: for each period its key, the sum of the amounts
  (\<open>'amount'\<close>) and the number of rows (\<open>'count'\<close>).\<close>

definition monthly_sales :: "('f, 'z) pandas \<Rightarrow> 'f row list \<Rightarrow> (string \<times> float64 \<times> nat) list" where
  "monthly_sales np df_with_dates =
     map (\<lambda>p. (period_str p,
                out_float np (amount_sum np (group_rows to_period p df_with_dates)),
                length (group_rows to_period p df_with_dates)))
       (group_keys to_period df_with_dates)"

text \<open>\<open>sort_values(ascending=False)\<close>: by descending sum; the parameter \<open>np_rank\<close> orders
  the accounts of equal sums, whose order the sorting algorithm does not fix.\<close>

definition desc_key :: "('f, 'z) pandas \<Rightarrow> 'f amt \<Rightarrow> rat" where
  "desc_key np a = (case a of I64 n \<Rightarrow> of_int (- n) | Oth x \<Rightarrow> np_order np x)"

definition sort_values_desc :: "('f, 'z) pandas \<Rightarrow> (string \<times> 'f amt) list \<Rightarrow> (string \<times> 'f amt) list" where
  "sort_values_desc np kvs = sort_key (\<lambda>e. (desc_key np (snd e), np_rank np (fst e))) kvs"

text \<open>\<open>df.groupby('account')['amount'].sum().sort_values(ascending=False).head(10)\<close>.\<close>

definition customer_group :: "('f, 'z) pandas \<Rightarrow> 'f row list \<Rightarrow> (string \<times> 'f amt) list" where
  "customer_group np df =
     take 10 (sort_values_desc np
       (map (\<lambda>k. (k, amount_sum np (group_rows account k df))) (group_keys account df)))"

text \<open>\<open>{str(k): float(v) for k, v in customer_group.items()}\<close>.\<close>

definition float_items :: "('f, 'z) pandas \<Rightarrow> (string \<times> 'f amt) list \<Rightarrow> (string \<times> float64) list" where
  "float_items np kvs = map (\<lambda>e. (fst e, out_float np (snd e))) kvs"

text \<open>\<open>jsonify\<close> writes the keys of an object in ascending order.\<close>

definition sort_keys :: "(string \<times> 'v) list \<Rightarrow> (string \<times> 'v) list" where
  "sort_keys kvs = sort_key fst kvs"

subsection \<open>The range of the dates\<close>

definition ts_key :: "timestamp \<Rightarrow> nat \<times> nat \<times> nat" where
  "ts_key t = (ts_year t, ts_month t, ts_day t)"

fun min_date :: "timestamp \<Rightarrow> timestamp list \<Rightarrow> timestamp" where
  "min_date m [] = m"
| "min_date m (t # ts) = min_date (if ts_key t < ts_key m then t else m) ts"

fun max_date :: "timestamp \<Rightarrow> timestamp list \<Rightarrow> timestamp" where
  "max_date m [] = m"
| "max_date m (t # ts) = max_date (if ts_key m < ts_key t then t else m) ts"

definition date_range_of :: "'f row list \<Rightarrow> string" where
  "date_range_of df_with_dates =
     (case List.map_filter parsed_date df_with_dates of
        [] \<Rightarrow> ''No dates''
      | t # ts \<Rightarrow> strftime_dby (min_date t ts) @ '' to '' @ strftime_dby (max_date t ts))"

subsection \<open>The sales summary\<close>

record SalesSummary =
  total_amount :: float64
  voucher_count :: nat
  monthly_breakdown :: "(string \<times> float64 \<times> nat) list"
  customer_breakdown :: "(string \<times> float64) list"
  date_range :: string

text \<open>The column \<open>account\<close> exists when a record has the key. A column that holds
  missing values only gives no group, as the absent column does.\<close>

definition has_account :: "'f row list \<Rightarrow> bool" where
  "has_account df = list_ex (\<lambda>r. account r \<noteq> None) df"

definition jsonify_sales :: "SalesSummary \<Rightarrow> SalesSummary" where
  "jsonify_sales s =
     s\<lparr>monthly_breakdown := sort_keys (monthly_breakdown s),
        customer_breakdown := sort_keys (customer_breakdown s)\<rparr>"

definition calculate_sales ::
  "('f, 'z) pandas \<Rightarrow> (string \<Rightarrow> timestamp option) \<Rightarrow> TransactionRecord list
     \<Rightarrow> DateContext option \<Rightarrow> error + SalesSummary" where
  "calculate_sales np generic sales_data date_context =
     (if sales_data = [] then
        Inr (jsonify_sales \<lparr>total_amount = Finite 0, voucher_count = 0, monthly_breakdown = [],
             customer_breakdown = [], date_range = ''No data''\<rparr>)
      else
        (case filter_by_date_context np generic (numeric_frame np sales_data) date_context of
           Inl e \<Rightarrow> Inl e
         | Inr df0 \<Rightarrow>
             (let df = apply_parse_date generic df0;
                  df_with_dates = dropna df
              in if df_with_dates \<noteq> [] \<and> object_dates np generic (map date df0)
                 then Inl AttributeError
                 else Inr (jsonify_sales
                   \<lparr>total_amount = out_float np (amount_sum np df0),
                    voucher_count = length df0,
                    monthly_breakdown =
                      (if df_with_dates \<noteq> [] then monthly_sales np df_with_dates else []),
                    customer_breakdown =
                      (if has_account df then float_items np (customer_group np df) else []),
                    date_range = date_range_of df_with_dates\<rparr>))))"

subsection \<open>The profit summary\<close>








text \<open>The frame of one of the two lists: empty for an empty list, which is neither
  coerced nor filtered.\<close>

definition filtered_frame ::
  "('f, 'z) pandas \<Rightarrow> (string \<Rightarrow> timestamp option) \<Rightarrow> TransactionRecord list
     \<Rightarrow> DateContext option \<Rightarrow> error + 'f row list" where
  "filtered_frame np generic data date_context =
     (if data = [] then Inr []
      else filter_by_date_context np generic (numeric_frame np data) date_context)"



subsection \<open>Instances of the parameters for closed examples\<close>

definition generic_none :: "string \<Rightarrow> timestamp option" where
  "generic_none s = None"

definition pandas_unit :: "(unit, unit) pandas" where
  "pandas_unit =
     \<lparr>np_coerce = (\<lambda>col v. ()), np_of_int = (\<lambda>n. ()), np_sum = (\<lambda>xs. ()),
      np_sub = (\<lambda>x y. ()), np_float = (\<lambda>x. NaN), np_order = (\<lambda>x. 0),
      np_rank = (\<lambda>k. 0), np_zone = (\<lambda>s. None)\<rparr>"

subsection \<open>Predicates of the properties\<close>

text \<open>An entry of \<open>months\<close> that the name table does not know: a string whose first
  three letters, in lower case, are no key of \<open>month_map\<close>.\<close>

definition unrecognized :: "str_or_int \<Rightarrow> bool" where
  "unrecognized m =
     (case m of S s \<Rightarrow> map_of month_map (take 3 (lower s)) = None | I n \<Rightarrow> False)"

text \<open>The rows of a frame all carry the parsed date of their date, and it is a date.\<close>

definition parsed_rows :: "(string \<Rightarrow> timestamp option) \<Rightarrow> 'f row list \<Rightarrow> bool" where
  "parsed_rows generic df =
     (\<forall>r\<in>set df. parsed_date r \<noteq> None \<and> parsed_date r = parse_date generic (date r))"

text \<open>The sum of the counts of a monthly breakdown.\<close>

definition count_total :: "(string \<times> float64 \<times> nat) list \<Rightarrow> nat" where
  "count_total mb = sum_list (map (\<lambda>e. snd (snd e)) mb)"



subsection \<open>The inputs of the scenarios\<close>

definition scenario_sales :: "TransactionRecord list" where
  "scenario_sales =
     [\<lparr>json_date = Some ''01-Jan-23'', json_amount = Text ''100'', json_account = Some ''A''\<rparr>,
      \<lparr>json_date = Some ''15-Jan-23'', json_amount = JInt 200, json_account = Some ''B''\<rparr>,
      \<lparr>json_date = Some ''01-Feb-23'', json_amount = JInt 50, json_account = Some ''A''\<rparr>]"

definition scenario_jan :: "DateContext option" where
  "scenario_jan = Some \<lparr>isDateSpecific = True, months = [S ''jan''], years = []\<rparr>"






section \<open>Properties\<close>

subsection \<open>Integers and their doubles\<close>

lemma bit_length_le:
  "0 \<le> n \<Longrightarrow> n < 2 ^ k \<Longrightarrow> bit_length n \<le> k"
proof (induction k arbitrary: n)
  case 0
  then have "n = 0" by simp
  then show ?case by (simp add: bit_length.simps)
next
  case (Suc k)
  show ?case
  proof (cases "n \<le> 0")
    case True
    then show ?thesis by (simp add: bit_length.simps)
  next
    case False
    from Suc.prems have "0 \<le> n div 2" "n div 2 < 2 ^ k" by simp_all
    then have "bit_length (n div 2) \<le> k" by (rule Suc.IH)
    with False show ?thesis by (subst bit_length.simps) simp
  qed
qed

lemma float_of_int_small:
  assumes "\<bar>n\<bar> < 2 ^ 53"
  shows "float_of_int n = of_int n"
proof -
  have "bit_length \<bar>n\<bar> \<le> 53" using assms by (intro bit_length_le) simp_all
  then show ?thesis by (simp add: float_of_int_def)
qed



subsection \<open>Evaluating the scenarios\<close>

lemmas dby_defs = to_datetime_dby_def day_field_def month_field_def year_field_def
  century_of_def digit_val_def lower_def lower_char_def upper_letters_def lower_letters_def month_abbr_def days_in_month_def is_leap_def

lemmas frame_defs = apply_parse_date_def dropna_def object_dates_def python_none_def zones_def
  date_zone_def

lemmas summary_defs = amount_sum_def monthly_sales_def
  group_keys_def group_rows_def to_period_def period_str_def pad2_def digit_char_def
  has_account_def customer_group_def sort_values_desc_def desc_key_def float_items_def
  sort_keys_def jsonify_sales_def date_range_of_def ts_key_def
  strftime_dby_def month_abbr_def Let_def col_sum_def int64_of_def out_float_def

lemma parse_01_Jan_23:
  "parse_date generic (Some ''01-Jan-23'') = Some \<lparr>ts_year = 2023, ts_month = 1, ts_day = 1\<rparr>"
  by (simp add: parse_date_def dby_defs)

lemma parse_15_Jan_23:
  "parse_date generic (Some ''15-Jan-23'') = Some \<lparr>ts_year = 2023, ts_month = 1, ts_day = 15\<rparr>"
  by (simp add: parse_date_def dby_defs)

lemma parse_01_Feb_23:
  "parse_date generic (Some ''01-Feb-23'') = Some \<lparr>ts_year = 2023, ts_month = 2, ts_day = 1\<rparr>"
  by (simp add: parse_date_def dby_defs)

lemmas parse_scenario = parse_01_Jan_23 parse_15_Jan_23 parse_01_Feb_23

lemma int_literal_100: "int_literal ''100'' = Some 100"
  by (simp add: int_literal_def strip_def is_space_def signed_def is_digit_def digit_val_def
      nat_of_digits_def)

lemma int64_cell_JInt: "in_int64 n \<Longrightarrow> int64_cell (JInt n) = Some n"
  by (simp add: int64_cell_def)

lemma int64_cell_100: "int64_cell (Text ''100'') = Some 100"
  by (simp add: int64_cell_def int_literal_100 in_int64_def)

lemma float_small_values:
  "float_of_int 0 = 0" "float_of_int 50 = 50" "float_of_int 100 = 100"
  "float_of_int 150 = 150" "float_of_int 200 = 200" "float_of_int 300 = 300"
  "float_of_int 350 = 350" "float_of_int 500 = 500"
  by (simp_all add: float_of_int_small)

lemma wrap64_small_values:
  "wrap64 0 = 0" "wrap64 50 = 50" "wrap64 100 = 100" "wrap64 150 = 150" "wrap64 200 = 200"
  "wrap64 300 = 300" "wrap64 350 = 350" "wrap64 500 = 500"
  by (simp_all add: wrap64_def)

lemma scenario_sales_not_Nil: "scenario_sales \<noteq> []"
  by (simp add: scenario_sales_def)

lemma numeric_frame_scenario_sales:
  "numeric_frame np scenario_sales =
     [\<lparr>date = Some ''01-Jan-23'', amount = I64 100, account = Some ''A'', parsed_date = None\<rparr>,
      \<lparr>date = Some ''15-Jan-23'', amount = I64 200, account = Some ''B'', parsed_date = None\<rparr>,
      \<lparr>date = Some ''01-Feb-23'', amount = I64 50, account = Some ''A'', parsed_date = None\<rparr>]"
  by (simp add: numeric_frame_def numeric_cell_def int_column_def scenario_sales_def
      int64_cell_100 int64_cell_JInt in_int64_def)

lemma filter_scenario_jan:
  "filter_by_date_context np generic (numeric_frame np scenario_sales) scenario_jan =
     Inr [\<lparr>date = Some ''01-Jan-23'', amount = I64 100, account = Some ''A'',
            parsed_date = Some \<lparr>ts_year = 2023, ts_month = 1, ts_day = 1\<rparr>\<rparr>,
          \<lparr>date = Some ''15-Jan-23'', amount = I64 200, account = Some ''B'',
            parsed_date = Some \<lparr>ts_year = 2023, ts_month = 1, ts_day = 15\<rparr>\<rparr>]"
  by (simp add: numeric_frame_scenario_sales scenario_jan_def filter_by_date_context_def
      filter_years_def filter_months_def month_map_def lower_def lower_char_def upper_letters_def lower_letters_def month_isin_def
      frame_defs parse_scenario)

lemma sales_scenario_value:
  "calculate_sales np generic scenario_sales None =
     Inr \<lparr>total_amount = Finite 350, voucher_count = 3,
          monthly_breakdown = [(''2023-01'', Finite 300, 2), (''2023-02'', Finite 50, 1)],
          customer_breakdown = [(''A'', Finite 150), (''B'', Finite 200)],
          date_range = ''01-Jan-23 to 01-Feb-23''\<rparr>"
  by (simp add: calculate_sales_def scenario_sales_not_Nil numeric_frame_scenario_sales
      filter_by_date_context_def frame_defs parse_scenario summary_defs
      float_small_values wrap64_small_values)

lemma sales_scenario_jan_value:
  "calculate_sales np generic scenario_sales scenario_jan =
     Inr \<lparr>total_amount = Finite 300, voucher_count = 2,
          monthly_breakdown = [(''2023-01'', Finite 300, 2)],
          customer_breakdown = [(''A'', Finite 100), (''B'', Finite 200)],
          date_range = ''01-Jan-23 to 15-Jan-23''\<rparr>"
  by (simp add: calculate_sales_def scenario_sales_not_Nil filter_scenario_jan
      frame_defs parse_scenario summary_defs float_small_values wrap64_small_values)


text \<open>
  C1. The three sales of the scenario with no date context: the total is 350 over 3
  vouchers, January 2023 holds 300 in 2 rows and February 2023 holds 50 in 1 row, account
  A sums to 150 and account B to 200, and the dates range from 01-Jan-23 to 01-Feb-23.
\<close>

theorem calculate_sales_scenario:
  "calculate_sales np generic scenario_sales None =
     Inr \<lparr>total_amount = Finite 350, voucher_count = 3,
          monthly_breakdown = [(''2023-01'', Finite 300, 2), (''2023-02'', Finite 50, 1)],
          customer_breakdown = [(''A'', Finite 150), (''B'', Finite 200)],
          date_range = ''01-Jan-23 to 01-Feb-23''\<rparr>
   \<and> map_of [(''A'', Finite 150), (''B'', Finite 200)]
       = [''A'' \<mapsto> Finite 150, ''B'' \<mapsto> Finite 200]"
proof
  show "calculate_sales np generic scenario_sales None =
     Inr \<lparr>total_amount = Finite 350, voucher_count = 3,
          monthly_breakdown = [(''2023-01'', Finite 300, 2), (''2023-02'', Finite 50, 1)],
          customer_breakdown = [(''A'', Finite 150), (''B'', Finite 200)],
          date_range = ''01-Jan-23 to 01-Feb-23''\<rparr>"
    by (rule sales_scenario_value)
  show "map_of [(''A'', Finite 150), (''B'', Finite 200)]
       = [''A'' \<mapsto> Finite 150, ''B'' \<mapsto> Finite 200]"
    by (auto simp: fun_eq_iff)
qed

text \<open>
  C3. The same sales with the date context of January: the filter runs before the totals,
  so the total is 300 and the count is 2, and the breakdowns hold the January rows only.
\<close>

theorem calculate_sales_scenario_jan:
  "calculate_sales np generic scenario_sales scenario_jan =
     Inr \<lparr>total_amount = Finite 300, voucher_count = 2,
          monthly_breakdown = [(''2023-01'', Finite 300, 2)],
          customer_breakdown = [(''A'', Finite 100), (''B'', Finite 200)],
          date_range = ''01-Jan-23 to 15-Jan-23''\<rparr>"
  by (rule sales_scenario_jan_value)

text \<open>
  C4. An empty list of sales gives the zero summary, whatever the date context is: zero
  total, zero count, empty breakdowns and the date range "No data". The filter is not
  reached, so a date context whose years do not read as integers raises nothing here.
\<close>

theorem calculate_sales_empty:
  "calculate_sales np generic [] date_context =
     Inr \<lparr>total_amount = Finite 0, voucher_count = 0, monthly_breakdown = [],
          customer_breakdown = [], date_range = ''No data''\<rparr>"
  by (simp add: calculate_sales_def jsonify_sales_def sort_keys_def)

subsection \<open>The summaries that the sales handler returns\<close>

lemma amount_sum_Nil: "amount_sum np [] = I64 0"
  by (simp add: amount_sum_def col_sum_def wrap64_def)

lemma calculate_sales_Inr:
  assumes "calculate_sales np generic sales_data date_context = Inr s"
  obtains df0 where "filtered_frame np generic sales_data date_context = Inr df0"
    and "total_amount s = out_float np (amount_sum np df0)"
    and "voucher_count s = length df0"
    and "monthly_breakdown s =
           sort_keys (if dropna (apply_parse_date generic df0) \<noteq> []
                      then monthly_sales np (dropna (apply_parse_date generic df0)) else [])"
    and "customer_breakdown s =
           sort_keys (if has_account (apply_parse_date generic df0)
                      then float_items np (customer_group np (apply_parse_date generic df0))
                      else [])"
proof (cases "sales_data = []")
  case True
  with assms have "s = \<lparr>total_amount = Finite 0, voucher_count = 0, monthly_breakdown = [],
          customer_breakdown = [], date_range = ''No data''\<rparr>"
    by (simp add: calculate_sales_def jsonify_sales_def sort_keys_def)
  with True show thesis
    by (intro that [of "[]"])
       (simp_all add: filtered_frame_def amount_sum_Nil out_float_def float_of_int_small
          apply_parse_date_def dropna_def has_account_def sort_keys_def)
next
  case False
  with assms obtain df0 where
    "filter_by_date_context np generic (numeric_frame np sales_data) date_context = Inr df0"
    "s = jsonify_sales
           \<lparr>total_amount = out_float np (amount_sum np df0), voucher_count = length df0,
            monthly_breakdown =
              (if dropna (apply_parse_date generic df0) \<noteq> []
               then monthly_sales np (dropna (apply_parse_date generic df0)) else []),
            customer_breakdown =
              (if has_account (apply_parse_date generic df0)
               then float_items np (customer_group np (apply_parse_date generic df0)) else []),
            date_range = date_range_of (dropna (apply_parse_date generic df0))\<rparr>"
    by (auto simp: calculate_sales_def Let_def split: sum.splits if_splits)
  with False show thesis
    by (intro that [of df0]) (simp_all add: filtered_frame_def jsonify_sales_def)
qed

subsection \<open>The inactive filter\<close>












subsection \<open>The strict format\<close>

text \<open>
  C6. A string with a hyphen that the format \<open>%d-%b-%y\<close> does not read is unparseable:
  the format-free parser is not tried on it, whatever it would answer.
\<close>

theorem parse_date_hyphen_strict:
  assumes "CHR ''-'' \<in> set s" and "to_datetime_dby s = None"
  shows "parse_date generic (Some s) = None"
  using assms by (auto simp: parse_date_def)

theorem parse_date_hyphen_strict_witness:
  "CHR ''-'' \<in> set ''2023-10-15'' \<and> to_datetime_dby ''2023-10-15'' = None
   \<and> parse_date (\<lambda>s. Some \<lparr>ts_year = 2023, ts_month = 10, ts_day = 15\<rparr>) (Some ''2023-10-15'')
       = None"
proof -
  have h: "CHR ''-'' \<in> set ''2023-10-15''" by simp
  have n: "to_datetime_dby ''2023-10-15'' = None"
    by (simp add: to_datetime_dby_def day_field_def)
  show ?thesis
    using parse_date_hyphen_strict [OF h n] h n by simp
qed

subsection \<open>Months that the name table does not know\<close>

lemma month_numbers_unrecognized:
  "list_all unrecognized ms \<Longrightarrow> month_numbers ms = []"
  by (induction ms rule: month_numbers.induct) (simp_all add: unrecognized_def)

lemma filter_months_unrecognized:
  "list_all unrecognized ms \<Longrightarrow> filter_months obj ms df = Inr df"
  by (simp add: filter_months_def month_numbers_unrecognized)

text \<open>
  C7. Under a date-specific context whose list of months is empty or holds unrecognized
  strings only, the month step keeps every row whose date parses: the filter is the year
  step on those rows, and with no years it returns exactly the rows whose date parses.
\<close>

theorem no_month_filter:
  assumes "isDateSpecific c" and "list_all unrecognized (months c)"
  shows "filter_months obj (months c) (dropna (apply_parse_date generic df))
           = Inr (dropna (apply_parse_date generic df))
     \<and> filter_by_date_context np generic df (Some c)
           = filter_years (object_dates np generic (map date df)) (years c)
               (dropna (apply_parse_date generic df))
     \<and> (years c = [] \<longrightarrow>
          filter_by_date_context np generic df (Some c)
            = Inr (dropna (apply_parse_date generic df)))"
  using assms
  by (simp add: filter_by_date_context_def filter_months_unrecognized filter_years_def)

theorem no_month_filter_witness:
  "isDateSpecific \<lparr>isDateSpecific = True, months = [S ''xyz''], years = []\<rparr>
   \<and> list_all unrecognized (months \<lparr>isDateSpecific = True, months = [S ''xyz''], years = []\<rparr>)
   \<and> filter_by_date_context pandas_unit generic_none (numeric_frame pandas_unit scenario_sales)
        (Some \<lparr>isDateSpecific = True, months = [S ''xyz''], years = []\<rparr>)
      = Inr [\<lparr>date = Some ''01-Jan-23'', amount = I64 100, account = Some ''A'',
               parsed_date = Some \<lparr>ts_year = 2023, ts_month = 1, ts_day = 1\<rparr>\<rparr>,
             \<lparr>date = Some ''15-Jan-23'', amount = I64 200, account = Some ''B'',
               parsed_date = Some \<lparr>ts_year = 2023, ts_month = 1, ts_day = 15\<rparr>\<rparr>,
             \<lparr>date = Some ''01-Feb-23'', amount = I64 50, account = Some ''A'',
               parsed_date = Some \<lparr>ts_year = 2023, ts_month = 2, ts_day = 1\<rparr>\<rparr>]"
proof -
  let ?c = "\<lparr>isDateSpecific = True, months = [S ''xyz''], years = []\<rparr>"
  have h1: "isDateSpecific ?c" by simp
  have h2: "list_all unrecognized (months ?c)"
    by (simp add: unrecognized_def month_map_def lower_def lower_char_def upper_letters_def lower_letters_def)
  have d: "dropna (apply_parse_date generic_none (numeric_frame pandas_unit scenario_sales))
      = [\<lparr>date = Some ''01-Jan-23'', amount = I64 100, account = Some ''A'',
               parsed_date = Some \<lparr>ts_year = 2023, ts_month = 1, ts_day = 1\<rparr>\<rparr>,
             \<lparr>date = Some ''15-Jan-23'', amount = I64 200, account = Some ''B'',
               parsed_date = Some \<lparr>ts_year = 2023, ts_month = 1, ts_day = 15\<rparr>\<rparr>,
             \<lparr>date = Some ''01-Feb-23'', amount = I64 50, account = Some ''A'',
               parsed_date = Some \<lparr>ts_year = 2023, ts_month = 2, ts_day = 1\<rparr>\<rparr>]"
    by (simp add: numeric_frame_scenario_sales apply_parse_date_def dropna_def parse_scenario)
  show ?thesis
    using no_month_filter [OF h1 h2, of False generic_none
        "numeric_frame pandas_unit scenario_sales" pandas_unit] h2 d
    by (simp add: filter_years_def)
qed

subsection \<open>The customers\<close>









subsection \<open>The counts of the monthly breakdown\<close>

lemma sum_group_lengths:
  assumes "finite K" and "\<And>r p. r \<in> set xs \<Longrightarrow> key r = Some p \<Longrightarrow> p \<in> K"
  shows "(\<Sum>p\<in>K. length (filter (\<lambda>r. key r = Some p) xs))
           = length (filter (\<lambda>r. key r \<noteq> None) xs)"
  using assms(2)
proof (induction xs)
  case Nil
  show ?case by simp
next
  case (Cons r xs)
  have ih: "(\<Sum>p\<in>K. length (filter (\<lambda>r. key r = Some p) xs))
              = length (filter (\<lambda>r. key r \<noteq> None) xs)"
    using Cons.prems by (intro Cons.IH) auto
  show ?case
  proof (cases "key r")
    case None
    then show ?thesis using ih by simp
  next
    case (Some q)
    then have q: "q \<in> K" using Cons.prems [of r q] by simp
    have "(\<Sum>p\<in>K. length (filter (\<lambda>r. key r = Some p) (r # xs)))
            = (\<Sum>p\<in>K. (if q = p then 1 else 0) + length (filter (\<lambda>r. key r = Some p) xs))"
      by (rule sum.cong) (simp_all add: Some)
    also have "\<dots> = 1 + (\<Sum>p\<in>K. length (filter (\<lambda>r. key r = Some p) xs))"
      using assms(1) q by (simp add: sum.distrib)
    finally show ?thesis using ih Some by simp
  qed
qed

lemma set_group_keys: "set (group_keys key df) = {p. \<exists>r\<in>set df. key r = Some p}"
  by (force simp: group_keys_def List.map_filter_def)

lemma distinct_group_keys: "distinct (group_keys key df)"
  by (simp add: group_keys_def)

lemma group_lengths_total:
  "sum_list (map (\<lambda>p. length (group_rows key p df)) (group_keys key df))
     = length (filter (\<lambda>r. key r \<noteq> None) df)"
proof -
  have "sum_list (map (\<lambda>p. length (group_rows key p df)) (group_keys key df))
          = (\<Sum>p\<in>set (group_keys key df). length (group_rows key p df))"
    by (rule sum_list_distinct_conv_sum_set) (rule distinct_group_keys)
  also have "\<dots> = length (filter (\<lambda>r. key r \<noteq> None) df)"
    unfolding group_rows_def
  proof (rule sum_group_lengths)
    show "finite (set (group_keys key df))" by simp
  next
    fix r p assume "r \<in> set df" and "key r = Some p"
    then show "p \<in> set (group_keys key df)" by (auto simp: set_group_keys)
  qed
  finally show ?thesis .
qed

lemma monthly_sales_counts: "count_total (monthly_sales np df) = length (dropna df)"
proof -
  have "count_total (monthly_sales np df)
          = sum_list (map (\<lambda>p. length (group_rows to_period p df)) (group_keys to_period df))"
    by (simp add: count_total_def monthly_sales_def comp_def)
  also have "\<dots> = length (filter (\<lambda>r. to_period r \<noteq> None) df)"
    by (rule group_lengths_total)
  also have "\<dots> = length (dropna df)"
    by (simp add: dropna_def to_period_def split: option.splits)
  finally show ?thesis .
qed

lemma dropna_idem: "dropna (dropna df) = dropna df"
  by (simp add: dropna_def)

lemma length_dropna_apply: "length (dropna (apply_parse_date generic df)) \<le> length df"
  by (simp add: dropna_def apply_parse_date_def)

lemma parsed_rows_filter: "parsed_rows generic df \<Longrightarrow> parsed_rows generic (filter P df)"
  unfolding parsed_rows_def by (metis filter_is_subset subsetD)

lemma parsed_rows_dropna_apply: "parsed_rows generic (dropna (apply_parse_date generic df))"
  by (auto simp: parsed_rows_def dropna_def apply_parse_date_def)

lemma parsed_rows_filter_months:
  "parsed_rows generic df \<Longrightarrow> filter_months obj ms df = Inr df' \<Longrightarrow> parsed_rows generic df'"
  by (auto simp: filter_months_def Let_def parsed_rows_filter split: if_splits)

lemma parsed_rows_filter_years:
  "parsed_rows generic df \<Longrightarrow> filter_years obj ys df = Inr df' \<Longrightarrow> parsed_rows generic df'"
  by (auto simp: filter_years_def parsed_rows_filter split: if_splits sum.splits)

lemma parsed_rows_filter_by_date_context:
  assumes "date_specific date_context"
    and "filter_by_date_context np generic df date_context = Inr df'"
  shows "parsed_rows generic df'"
proof -
  from assms(1) obtain c where c: "date_context = Some c" "isDateSpecific c"
    by (auto simp: date_specific_def split: option.splits)
  with assms(2) obtain df1 where
    m: "filter_months (object_dates np generic (map date df)) (months c)
          (dropna (apply_parse_date generic df)) = Inr df1" and
    y: "filter_years (object_dates np generic (map date df)) (years c) df1 = Inr df'"
    by (auto simp: filter_by_date_context_def split: sum.splits)
  from parsed_rows_dropna_apply m have "parsed_rows generic df1"
    by (rule parsed_rows_filter_months)
  then show ?thesis using y by (rule parsed_rows_filter_years)
qed

lemma parsed_rows_filtered_frame:
  assumes "date_specific date_context"
    and "filtered_frame np generic data date_context = Inr df'"
  shows "parsed_rows generic df'"
proof (cases "data = []")
  case True
  with assms(2) show ?thesis by (simp add: filtered_frame_def parsed_rows_def)
next
  case False
  with assms(2) show ?thesis
    by (intro parsed_rows_filter_by_date_context [OF assms(1)]) (simp add: filtered_frame_def)
qed

lemma parsed_rows_fixed:
  assumes "parsed_rows generic df"
  shows "dropna (apply_parse_date generic df) = df"
proof -
  have "apply_parse_date generic df = df"
    unfolding apply_parse_date_def using assms
    by (intro map_idI) (simp add: parsed_rows_def)
  moreover have "dropna df = df"
    using assms unfolding dropna_def parsed_rows_def by (intro filter_True) blast
  ultimately show ?thesis by simp
qed

lemma sum_list_insort_key:
  fixes f :: "'a \<Rightarrow> nat"
  shows "sum_list (map f (insort_key g x xs)) = f x + sum_list (map f xs)"
  by (induction xs) simp_all

lemma sum_list_sort_key:
  fixes f :: "'a \<Rightarrow> nat"
  shows "sum_list (map f (sort_key g xs)) = sum_list (map f xs)"
  by (induction xs) (simp_all add: sum_list_insort_key)

lemma count_total_sort_keys: "count_total (sort_keys mb) = count_total mb"
  by (simp add: count_total_def sort_keys_def sum_list_sort_key)

text \<open>
  C10. In a summary the counts of the monthly breakdown sum to at most the voucher count,
  and to the voucher count itself when the date context is date specific: the filter has
  dropped the rows whose date does not parse, and parsing again drops no further row.
\<close>

theorem monthly_counts_voucher_count:
  assumes "calculate_sales np generic sales_data date_context = Inr s"
  shows "count_total (monthly_breakdown s) \<le> voucher_count s
     \<and> (date_specific date_context \<longrightarrow> count_total (monthly_breakdown s) = voucher_count s)"
proof -
  from assms obtain df0 where
    f: "filtered_frame np generic sales_data date_context = Inr df0" and
    v: "voucher_count s = length df0" and
    m: "monthly_breakdown s =
           sort_keys (if dropna (apply_parse_date generic df0) \<noteq> []
                      then monthly_sales np (dropna (apply_parse_date generic df0)) else [])"
    by (rule calculate_sales_Inr)
  have c: "count_total (monthly_breakdown s) = length (dropna (apply_parse_date generic df0))"
    by (simp add: m count_total_sort_keys monthly_sales_counts dropna_idem)
       (simp add: count_total_def)
  have "count_total (monthly_breakdown s) \<le> voucher_count s"
    by (simp add: c v length_dropna_apply)
  moreover have "count_total (monthly_breakdown s) = voucher_count s"
    if "date_specific date_context"
    using parsed_rows_fixed [OF parsed_rows_filtered_frame [OF that f]] c v by simp
  ultimately show ?thesis by simp
qed

theorem monthly_counts_voucher_count_witness:
  "calculate_sales pandas_unit generic_none scenario_sales scenario_jan =
     Inr \<lparr>total_amount = Finite 300, voucher_count = 2,
          monthly_breakdown = [(''2023-01'', Finite 300, 2)],
          customer_breakdown = [(''A'', Finite 100), (''B'', Finite 200)],
          date_range = ''01-Jan-23 to 15-Jan-23''\<rparr>
   \<and> date_specific scenario_jan
   \<and> count_total [(''2023-01'', Finite 300, 2)] = 2"
proof -
  have d: "date_specific scenario_jan" by (simp add: date_specific_def scenario_jan_def)
  show ?thesis
    using monthly_counts_voucher_count
        [OF sales_scenario_jan_value [of pandas_unit generic_none]]
      sales_scenario_jan_value [of pandas_unit generic_none] d
    by simp
qed

subsection \<open>Formatting a date and parsing it again\<close>

lemma two_digits: "n < 100 \<Longrightarrow> 10 * (n div 10 mod 10) + n mod 10 = (n::nat)"
proof -
  assume "n < 100"
  then have "n div 10 < 10" by simp
  then have "n div 10 mod 10 = n div 10" by simp
  then show ?thesis by simp
qed

lemma mod_100_offset:
  assumes "k < 100"
  shows "(2000 + k) mod 100 = (k::nat)" and "(1900 + k) mod 100 = k"
proof -
  have "(20 * 100 + k) mod 100 = k mod 100" by (rule mod_mult_self3)
  then show "(2000 + k) mod 100 = k" using assms by simp
  have "(19 * 100 + k) mod 100 = k mod 100" by (rule mod_mult_self3)
  then show "(1900 + k) mod 100 = k" using assms by simp
qed

lemma mod_4_offset: "(2000 + k) mod 4 = k mod (4::nat)" "(1900 + k) mod 4 = k mod 4"
proof -
  have "(500 * 4 + k) mod 4 = k mod 4" by (rule mod_mult_self3)
  then show "(2000 + k) mod 4 = k mod 4" by simp
  have "(475 * 4 + k) mod 4 = k mod 4" by (rule mod_mult_self3)
  then show "(1900 + k) mod 4 = k mod 4" by simp
qed

lemma century_of_mod_100: "yy < 100 \<Longrightarrow> century_of yy mod 100 = yy"
  by (simp add: century_of_def mod_100_offset)

lemma century_of_mod_4: "century_of yy mod 4 = yy mod 4"
  by (simp add: century_of_def mod_4_offset)

lemma is_leap_century_of:
  assumes "is_leap y"
  shows "is_leap (century_of (y mod 100))"
proof -
  have "y mod 100 mod 4 = y mod 4" by (rule mod_mod_cancel) simp
  with assms have four: "century_of (y mod 100) mod 4 = 0"
    by (simp add: century_of_mod_4 is_leap_def)
  show ?thesis
  proof (cases "y mod 100 = 0")
    case True
    then show ?thesis by (simp add: century_of_def is_leap_def)
  next
    case False
    then have "century_of (y mod 100) mod 100 \<noteq> 0"
      by (simp add: century_of_mod_100)
    with four show ?thesis by (simp add: is_leap_def)
  qed
qed

lemma century_of_window:
  assumes "1969 \<le> y" and "y \<le> 2068"
  shows "century_of (y mod 100) = y"
proof (cases "y < 2000")
  case True
  define k where "k = y - 1900"
  with assms True have k: "y = 1900 + k" "69 \<le> k" "k < 100" by simp_all
  then have "y mod 100 = k" by (simp add: mod_100_offset)
  with k show ?thesis by (simp add: century_of_def)
next
  case False
  define k where "k = y - 2000"
  with assms False have k: "y = 2000 + k" "k \<le> 68" by simp_all
  then have "y mod 100 = k" by (simp add: mod_100_offset)
  with k show ?thesis by (simp add: century_of_def)
qed



lemma lt10_cases:
  assumes "k < (10::nat)"
  obtains "k = 0" | "k = 1" | "k = 2" | "k = 3" | "k = 4" | "k = 5" | "k = 6"
    | "k = 7" | "k = 8" | "k = 9"
proof -
  from assms have "k \<in> set [0..<10]" by simp
  also have "[0..<10] = [0, 1, 2, 3, 4, 5, 6, 7, 8, 9::nat]" by (simp add: upt_rec)
  finally show thesis using that by auto
qed

lemma digit_val_nth: "k < 10 \<Longrightarrow> digit_val (''0123456789'' ! k) = Some k"
  by (erule lt10_cases) (simp_all add: digit_val_def)

lemma month_cases:
  assumes "1 \<le> m" and "m \<le> (12::nat)"
  obtains "m = 1" | "m = 2" | "m = 3" | "m = 4" | "m = 5" | "m = 6" | "m = 7" | "m = 8"
    | "m = 9" | "m = 10" | "m = 11" | "m = 12"
proof -
  from assms have "m \<in> set [1..<13]" by simp
  also have "[1..<13] = [1, 2, 3, 4, 5, 6, 7, 8, 9, 10, 11, 12::nat]" by (simp add: upt_rec)
  finally show thesis using that by auto
qed


lemma digit_val_digit_char: "digit_val (digit_char n) = Some (n mod 10)"
  by (simp add: digit_char_def digit_val_nth)

lemma digit_char_not_hyphen: "digit_char n \<noteq> CHR ''-''"
proof
  assume "digit_char n = CHR ''-''"
  then have "digit_val (CHR ''-'') = Some (n mod 10)"
    using digit_val_digit_char [of n] by simp
  then show False by (simp add: digit_val_def)
qed

lemma digit_char_not_space: "digit_char n \<noteq> CHR '' ''"
proof
  assume "digit_char n = CHR '' ''"
  then have "digit_val (CHR '' '') = Some (n mod 10)"
    using digit_val_digit_char [of n] by simp
  then show False by (simp add: digit_val_def)
qed

lemma split_on_no_sep: "c \<notin> set a \<Longrightarrow> split_on c a = [a]"
  by (induction a) auto

lemma split_on_field: "c \<notin> set a \<Longrightarrow> split_on c (a @ c # rest) = a # split_on c rest"
  by (induction a) (auto split: list.splits)

lemma month_abbr_no_hyphen:
  assumes "1 \<le> m" and "m \<le> 12"
  shows "CHR ''-'' \<notin> set (month_abbr ! (m - 1))"
  using assms by (cases m rule: month_cases) (simp_all add: month_abbr_def)

lemma month_field_abbr:
  assumes "1 \<le> m" and "m \<le> 12"
  shows "month_field (month_abbr ! (m - 1)) = Some m"
  using assms
  by (cases m rule: month_cases) (simp_all add: month_field_def month_abbr_def lower_def lower_char_def upper_letters_def lower_letters_def)

lemma day_field_pad2:
  assumes "1 \<le> d" and "d \<le> 31"
  shows "day_field (pad2 d) = Some d"
proof -
  have "10 * (d div 10 mod 10) + d mod 10 = d" using assms by (intro two_digits) simp
  then show ?thesis
    using assms by (simp add: day_field_def pad2_def digit_char_not_space digit_val_digit_char)
qed

lemma year_field_pad2: "yy < 100 \<Longrightarrow> year_field (pad2 yy) = Some (century_of yy)"
proof -
  assume "yy < 100"
  then have "10 * (yy div 10 mod 10) + yy mod 10 = yy" by (rule two_digits)
  then show ?thesis
    by (simp add: year_field_def pad2_def digit_val_digit_char)
qed

lemma days_in_month_le_31: "days_in_month y m \<le> 31"
  by (simp add: days_in_month_def)

lemma days_in_month_century_of:
  "days_in_month y m \<le> days_in_month (century_of (y mod 100)) m"
  using is_leap_century_of [of y] by (simp add: days_in_month_def)

lemma split_strftime:
  assumes "1 \<le> ts_month t" and "ts_month t \<le> 12"
  shows "split_on CHR ''-'' (strftime_dby t)
           = [pad2 (ts_day t), month_abbr ! (ts_month t - 1), pad2 (ts_year t mod 100)]"
proof -
  have d: "CHR ''-'' \<notin> set (pad2 n)" for n
    using digit_char_not_hyphen [of n] digit_char_not_hyphen [of "n div 10"]
    by (auto simp: pad2_def)
  have "strftime_dby t = pad2 (ts_day t) @ CHR ''-'' #
          (month_abbr ! (ts_month t - 1) @ CHR ''-'' # pad2 (ts_year t mod 100))"
    by (simp add: strftime_dby_def)
  then show ?thesis
    by (simp only: split_on_field [OF d] split_on_field [OF month_abbr_no_hyphen [OF assms]]
        split_on_no_sep [OF d])
qed

lemma to_datetime_strftime:
  assumes "valid_date t"
  shows "to_datetime_dby (strftime_dby t) = Some (t\<lparr>ts_year := century_of (ts_year t mod 100)\<rparr>)"
proof -
  from assms have m: "1 \<le> ts_month t" "ts_month t \<le> 12"
    and d: "1 \<le> ts_day t" "ts_day t \<le> days_in_month (ts_year t) (ts_month t)"
    by (simp_all add: valid_date_def)
  have d31: "ts_day t \<le> 31" using d(2) days_in_month_le_31 [of "ts_year t" "ts_month t"] by simp
  have dd: "ts_day t \<le> days_in_month (century_of (ts_year t mod 100)) (ts_month t)"
    using d(2) days_in_month_century_of [of "ts_year t" "ts_month t"] by simp
  have mf: "month_field (month_abbr ! (ts_month t - Suc 0)) = Some (ts_month t)"
    using month_field_abbr [OF m] by simp
  have yf: "year_field (pad2 (ts_year t mod 100)) = Some (century_of (ts_year t mod 100))"
    by (rule year_field_pad2) simp
  show ?thesis
    by (simp add: to_datetime_dby_def split_strftime [OF m] day_field_pad2 [OF d(1) d31]
        mf yf dd)
qed

lemma hyphen_in_strftime: "CHR ''-'' \<in> set (strftime_dby t)"
  by (simp add: strftime_dby_def)

text \<open>
  C5 (as amended). Formatting a calendar date as \<open>%d-%b-%y\<close> and parsing the string
  gives the same day and month, and the year that the two digits stand for: 2000 + YY
  for YY up to 68 and 1900 + YY from 69 on. So the date itself comes back when its year is
  between 1969 and 2068.
\<close>

theorem parse_date_strftime:
  assumes "valid_date t"
  shows "parse_date generic (Some (strftime_dby t))
           = Some (t\<lparr>ts_year := century_of (ts_year t mod 100)\<rparr>)
     \<and> (1969 \<le> ts_year t \<and> ts_year t \<le> 2068 \<longrightarrow>
           parse_date generic (Some (strftime_dby t)) = Some t)"
proof -
  have ne: "strftime_dby t \<noteq> []" using hyphen_in_strftime [of t] by auto
  have p: "parse_date generic (Some (strftime_dby t))
           = Some (t\<lparr>ts_year := century_of (ts_year t mod 100)\<rparr>)"
    by (simp add: parse_date_def ne hyphen_in_strftime to_datetime_strftime [OF assms])
  show ?thesis
    by (simp add: p century_of_window)
qed

theorem parse_date_strftime_witness:
  "valid_date \<lparr>ts_year = 2023, ts_month = 10, ts_day = 15\<rparr>
   \<and> strftime_dby \<lparr>ts_year = 2023, ts_month = 10, ts_day = 15\<rparr> = ''15-Oct-23''
   \<and> parse_date generic_none (Some (strftime_dby \<lparr>ts_year = 2023, ts_month = 10, ts_day = 15\<rparr>))
       = Some \<lparr>ts_year = 2023, ts_month = 10, ts_day = 15\<rparr>"
proof -
  have v: "valid_date \<lparr>ts_year = 2023, ts_month = 10, ts_day = 15\<rparr>"
    by (simp add: valid_date_def days_in_month_def)
  have f: "strftime_dby \<lparr>ts_year = 2023, ts_month = 10, ts_day = 15\<rparr> = ''15-Oct-23''"
    by (simp add: strftime_dby_def pad2_def digit_char_def month_abbr_def)
  show ?thesis
    using parse_date_strftime [OF v, of generic_none] v f by (simp add: century_of_def)
qed

text \<open>
  The claim as it was stated fails: the first of January 1950 is written \<open>01-Jan-50\<close>,
  which parses to the first of January 2050.
\<close>

theorem parse_date_strftime_1950:
  "valid_date \<lparr>ts_year = 1950, ts_month = 1, ts_day = 1\<rparr>
   \<and> strftime_dby \<lparr>ts_year = 1950, ts_month = 1, ts_day = 1\<rparr> = ''01-Jan-50''
   \<and> parse_date generic_none (Some (strftime_dby \<lparr>ts_year = 1950, ts_month = 1, ts_day = 1\<rparr>))
       = Some \<lparr>ts_year = 2050, ts_month = 1, ts_day = 1\<rparr>
   \<and> parse_date generic_none (Some (strftime_dby \<lparr>ts_year = 1950, ts_month = 1, ts_day = 1\<rparr>))
       \<noteq> Some \<lparr>ts_year = 1950, ts_month = 1, ts_day = 1\<rparr>"
proof -
  have v: "valid_date \<lparr>ts_year = 1950, ts_month = 1, ts_day = 1\<rparr>"
    by (simp add: valid_date_def days_in_month_def)
  have f: "strftime_dby \<lparr>ts_year = 1950, ts_month = 1, ts_day = 1\<rparr> = ''01-Jan-50''"
    by (simp add: strftime_dby_def pad2_def digit_char_def month_abbr_def)
  have p: "parse_date generic_none (Some ''01-Jan-50'')
             = Some \<lparr>ts_year = 2050, ts_month = 1, ts_day = 1\<rparr>"
    by (simp add: parse_date_def dby_defs)
  show ?thesis using v f p by simp
qed

subsection \<open>The profit summary\<close>







end
